theory Spec2Isabelle
  imports Complex_Main
begin

section \<open>Errors, configurations and attention modules\<close>

text \<open>
  The two attention modules of the repository, \<^verbatim>\<open>LigerGatedSlotAttention\<close>
  (modeling_liger_gsa.py) and \<^verbatim>\<open>LigerQwen2GatedLinearAttention\<close>
  (modeling_liger_qwen2_gla.py), are embedded as functions on nested lists of real
  numbers. An exception of the Python code is the left injection of a sum type.
\<close>

datatype error = ValueError | ZeroDivisionError | TypeError | RuntimeError | EinopsError

definition and_then :: "error + 'a \<Rightarrow> ('a \<Rightarrow> error + 'b) \<Rightarrow> error + 'b" where
  "and_then r f = (case r of Inl e \<Rightarrow> Inl e | Inr x \<Rightarrow> f x)"

datatype dtype = Float64 | Float32 | Float16 | BFloat16

text \<open>
  The fields of the configuration object that the two constructors read. \<open>head_dim\<close>
  is \<open>None\<close> when the configuration has no such attribute (the Gated Slot Attention
  constructor reads it with \<^verbatim>\<open>getattr\<close> and a default);
  \<open>pre_quantization_dtype\<close> is \<open>None\<close> when \<^verbatim>\<open>_pre_quantization_dtype\<close> is absent.
\<close>

record config =
  hidden_size :: int
  num_attention_heads :: int
  num_key_value_heads :: int
  head_dim :: "int option"
  pool_size :: int
  pre_quantization_dtype :: "dtype option"

text \<open>\<^verbatim>\<open>nn.Linear\<close>: the shape of the layer; allocating a weight with a negative
  dimension raises.\<close>

record linear =
  in_features :: int
  out_features :: int
  has_bias :: bool

definition Linear :: "int \<Rightarrow> int \<Rightarrow> bool \<Rightarrow> error + linear" where
  "Linear i out b =
     (if i < 0 \<or> out < 0 then Inl RuntimeError
      else Inr \<lparr>in_features = i, out_features = out, has_bias = b\<rparr>)"

text \<open>Python's \<^verbatim>\<open>//\<close> on integers: floor division, raising on a zero divisor.\<close>

definition floordiv :: "int \<Rightarrow> int \<Rightarrow> error + int" where
  "floordiv a b = (if b = 0 then Inl ZeroDivisionError else Inr (a div b))"

text \<open>The attributes that \<^verbatim>\<open>__init__\<close> sets on the module. \<open>self_pool_g\<close> is the
  output size of the \<^verbatim>\<open>AdaptiveAvgPool1d\<close>; a fresh \<^verbatim>\<open>nn.Module\<close> is in training
  mode.\<close>

record attention =
  self_layer_idx :: "nat option"
  self_hidden_size :: int
  self_num_heads :: int
  self_head_dim :: int
  self_num_key_value_heads :: int
  self_num_key_value_groups :: int
  self_q_proj :: linear
  self_k_proj :: linear
  self_v_proj :: linear
  self_o_proj :: linear
  self_pool_g :: int
  self_pre_quantization_dtype :: "dtype option"
  training :: bool

text \<open>\<^verbatim>\<open>LigerGatedSlotAttention.__init__\<close> (modeling_liger_gsa.py, lines 45-69). The
  default of \<^verbatim>\<open>getattr\<close> is evaluated before the lookup, so the division is always
  carried out. There is no \<^verbatim>\<open>raise\<close> in this constructor.\<close>

definition gsa_init :: "config \<Rightarrow> nat option \<Rightarrow> error + attention" where
  "gsa_init cfg layer_idx =
     and_then (floordiv (hidden_size cfg) (num_attention_heads cfg)) (\<lambda>dflt.
     let hdim = (case head_dim cfg of Some d \<Rightarrow> d | None \<Rightarrow> dflt) in
     and_then (floordiv (num_attention_heads cfg) (num_key_value_heads cfg)) (\<lambda>groups.
     and_then (Linear (hidden_size cfg) (num_attention_heads cfg * hdim) False) (\<lambda>q.
     and_then (Linear (hidden_size cfg) (num_key_value_heads cfg * hdim) False) (\<lambda>k.
     and_then (Linear (hidden_size cfg) (num_key_value_heads cfg * hdim) False) (\<lambda>v.
     and_then (Linear (num_attention_heads cfg * hdim) (hidden_size cfg) False) (\<lambda>out.
     Inr \<lparr>self_layer_idx = layer_idx,
          self_hidden_size = hidden_size cfg,
          self_num_heads = num_attention_heads cfg,
          self_head_dim = hdim,
          self_num_key_value_heads = num_key_value_heads cfg,
          self_num_key_value_groups = groups,
          self_q_proj = q, self_k_proj = k, self_v_proj = v, self_o_proj = out,
          self_pool_g = pool_size cfg * num_key_value_heads cfg,
          self_pre_quantization_dtype = pre_quantization_dtype cfg,
          training = True\<rparr>))))))"

text \<open>\<^verbatim>\<open>LigerQwen2GatedLinearAttention.__init__\<close> (modeling_liger_qwen2_gla.py, lines
  53-89). A missing \<open>layer_idx\<close> only logs a warning. The single \<^verbatim>\<open>raise\<close> compares
  \<open>head_dim * num_heads\<close> with \<open>hidden_size\<close>, where \<open>head_dim\<close> is the floor quotient.\<close>

definition gla_init :: "config \<Rightarrow> nat option \<Rightarrow> error + attention" where
  "gla_init cfg layer_idx =
     and_then (floordiv (hidden_size cfg) (num_attention_heads cfg)) (\<lambda>hdim.
     and_then (floordiv (num_attention_heads cfg) (num_key_value_heads cfg)) (\<lambda>groups.
     if hdim * num_attention_heads cfg \<noteq> hidden_size cfg then Inl ValueError
     else
     and_then (Linear (hidden_size cfg) (num_attention_heads cfg * hdim) True) (\<lambda>q.
     and_then (Linear (hidden_size cfg) (num_key_value_heads cfg * hdim) True) (\<lambda>k.
     and_then (Linear (hidden_size cfg) (num_key_value_heads cfg * hdim) True) (\<lambda>v.
     and_then (Linear (num_attention_heads cfg * hdim) (hidden_size cfg) False) (\<lambda>out.
     Inr \<lparr>self_layer_idx = layer_idx,
          self_hidden_size = hidden_size cfg,
          self_num_heads = num_attention_heads cfg,
          self_head_dim = hdim,
          self_num_key_value_heads = num_key_value_heads cfg,
          self_num_key_value_groups = groups,
          self_q_proj = q, self_k_proj = k, self_v_proj = v, self_o_proj = out,
          self_pool_g = hdim * num_key_value_heads cfg,
          self_pre_quantization_dtype = pre_quantization_dtype cfg,
          training = True\<rparr>))))))"

text \<open>The two relations that the specification calls a valid configuration, with the
  head dimension that each constructor uses.\<close>

definition heads_divisible :: "config \<Rightarrow> bool" where
  "heads_divisible cfg \<longleftrightarrow> num_attention_heads cfg mod num_key_value_heads cfg = 0"

definition hidden_matches :: "config \<Rightarrow> int \<Rightarrow> bool" where
  "hidden_matches cfg hdim \<longleftrightarrow> num_attention_heads cfg * hdim = hidden_size cfg"

section \<open>Tensors\<close>

text \<open>
  A tensor is a storage format (its dtype) and its entries, held as nested lists in the
  order of its axes: \<open>t3\<close> is (batch, sequence, features), \<open>t4\<close> is (batch, heads,
  sequence, head features). The entries are real numbers and a cast changes the dtype
  only. Arithmetic is exact, except in the decay tensor of the slot-attention variant
  (\<open>slot_decay\<close> below), which is rounded to the dtype it is computed in: its range
  depends on that.
  The size of an inner axis is read off the first entry of the outer ones, so a tensor
  with an empty outer axis has inner axes of size 0 here.
\<close>

type_synonym vec = "real list"
type_synonym t2 = "vec list"
type_synonym t3 = "vec list list"
type_synonym t4 = "vec list list list"

record 'a tensor =
  dtype :: dtype
  vals :: 'a

definition shape1 :: "'a list list \<Rightarrow> nat" where
  "shape1 t = (case t of [] \<Rightarrow> 0 | x # _ \<Rightarrow> length x)"

definition shape2 :: "'a list list list \<Rightarrow> nat" where
  "shape2 t = (case t of [] \<Rightarrow> 0 | x # _ \<Rightarrow> shape1 x)"

definition vectors :: "t4 \<Rightarrow> vec list" where
  "vectors t = concat (concat t)"

definition elements :: "t4 \<Rightarrow> real list" where
  "elements t = concat (vectors t)"

definition to :: "dtype \<Rightarrow> 'a tensor \<Rightarrow> 'a tensor" where
  "to d t = t\<lparr>dtype := d\<rparr>"

definition bfloat16 :: "'a tensor \<Rightarrow> 'a tensor" where
  "bfloat16 t = to BFloat16 t"

definition tmap :: "(real \<Rightarrow> real) \<Rightarrow> t4 tensor \<Rightarrow> t4 tensor" where
  "tmap f t = t\<lparr>vals := map (map (map (map f))) (vals t)\<rparr>"

text \<open>Exchanging two adjacent axes, the inner one of size \<open>n\<close>: entry \<open>i\<close> of the
  result collects entry \<open>i\<close> of every row (of every row that has one).\<close>

definition swap_axes :: "nat \<Rightarrow> 'a list list \<Rightarrow> 'a list list" where
  "swap_axes n rows = map (\<lambda>i. concat (map (\<lambda>r. take 1 (drop i r)) rows)) [0..<n]"

definition transpose12 :: "t4 tensor \<Rightarrow> t4 tensor" where
  "transpose12 t = t\<lparr>vals := map (\<lambda>x. swap_axes (shape1 x) x) (vals t)\<rparr>"

text \<open>Cutting a feature row into \<open>h\<close> consecutive pieces of \<open>d\<close> entries.\<close>

definition chunks :: "nat \<Rightarrow> nat \<Rightarrow> vec \<Rightarrow> vec list" where
  "chunks h d row = map (\<lambda>j. take d (drop (j * d) row)) [0..<h]"

text \<open>\<^verbatim>\<open>rearrange(x, 'b n (h d) -> b h n d', h=h)\<close>: einops raises unless \<open>h\<close> is
  positive and divides the feature axis.\<close>

definition rearrange_heads :: "int \<Rightarrow> t3 tensor \<Rightarrow> error + t4 tensor" where
  "rearrange_heads h x =
     (if h \<le> 0 \<or> (\<exists>row \<in> set (concat (vals x)). length row mod nat h \<noteq> 0)
      then Inl EinopsError
      else Inr \<lparr>dtype = dtype x,
                vals = map (\<lambda>toks. swap_axes (nat h)
                         (map (\<lambda>row. chunks (nat h) (length row div nat h) row) toks))
                       (vals x)\<rparr>)"

text \<open>\<^verbatim>\<open>x.view(bsz, q_len, -1, head_dim).transpose(1, 2)\<close>: the view raises when the
  tensor has no element in its batch or sequence axis (the \<open>-1\<close> is then ambiguous),
  when \<open>head_dim\<close> is not positive, or when it does not divide the feature axis.\<close>

definition view_heads :: "int \<Rightarrow> t3 tensor \<Rightarrow> error + t4 tensor" where
  "view_heads hdim x =
     (if vals x = [] \<or> shape1 (vals x) = 0 \<or> hdim \<le> 0
         \<or> (\<exists>row \<in> set (concat (vals x)). length row mod nat hdim \<noteq> 0)
      then Inl RuntimeError
      else Inr \<lparr>dtype = dtype x,
                vals = map (\<lambda>toks. swap_axes (shape2 (vals x) div nat hdim)
                         (map (\<lambda>row. chunks (length row div nat hdim) (nat hdim) row) toks))
                       (vals x)\<rparr>)"

text \<open>\<^verbatim>\<open>rearrange(x, 'b h n d -> b n (h d)')\<close>.\<close>

definition rearrange_merge :: "t4 tensor \<Rightarrow> t3 tensor" where
  "rearrange_merge x =
     \<lparr>dtype = dtype x, vals = map (\<lambda>hs. map concat (swap_axes (shape1 hs) hs)) (vals x)\<rparr>"

text \<open>\<^verbatim>\<open>repeat_kv\<close> of transformers: every key-value head is repeated \<open>n_rep\<close> times,
  the copies next to each other; with \<open>n_rep = 1\<close> the argument itself is returned. A negative \<open>n_rep\<close> is
  rejected.\<close>

definition repeat_kv :: "t4 tensor \<Rightarrow> int \<Rightarrow> error + t4 tensor" where
  "repeat_kv x n_rep =
     (if n_rep = 1 then Inr x
      else if n_rep < 0 then Inl RuntimeError
      else Inr (x\<lparr>vals := map (\<lambda>hs. concat (map (replicate (nat n_rep)) hs)) (vals x)\<rparr>))"

text \<open>\<^verbatim>\<open>nn.AdaptiveAvgPool1d(output_size)\<close> on the feature axis: output entry \<open>i\<close> is
  the mean of the inputs from \<open>floor (i * L / output_size)\<close> up to
  \<open>ceil ((i + 1) * L / output_size)\<close>, where \<open>L\<close> is the input width. An empty feature
  axis and a negative output size raise.\<close>

definition adaptive_avg_pool_row :: "nat \<Rightarrow> vec \<Rightarrow> vec" where
  "adaptive_avg_pool_row out x =
     map (\<lambda>i. let s = (i * length x) div out;
                  e = ((i + 1) * length x + out - 1) div out;
                  w = take (e - s) (drop s x)
              in sum_list w / real (length w)) [0..<out]"

definition AdaptiveAvgPool1d :: "int \<Rightarrow> t3 tensor \<Rightarrow> error + t3 tensor" where
  "AdaptiveAvgPool1d output_size x =
     (if output_size < 0 \<or> [] \<in> set (concat (vals x)) then Inl RuntimeError
      else Inr (x\<lparr>vals := map (map (adaptive_avg_pool_row (nat output_size))) (vals x)\<rparr>))"

subsection \<open>Gates\<close>

definition logsigmoid :: "real \<Rightarrow> real" where
  "logsigmoid x = - ln (1 + exp (- x))"

text \<open>\<^verbatim>\<open>g = F.logsigmoid(g) / gate_logit_normalizer\<close> with the normalizer 16 (lines
  103-104 of modeling_liger_gsa.py, 148-149 of modeling_liger_qwen2_gla.py).\<close>

definition gate_logit_normalizer :: real where
  "gate_logit_normalizer = 16"

definition gate :: "t4 tensor \<Rightarrow> t4 tensor" where
  "gate g = tmap (\<lambda>x. logsigmoid x / gate_logit_normalizer) g"

text \<open>
  Rounding to a floating-point format: to the nearest number with \<open>precision d\<close>
  significant bits, ties to the even one. \<open>ulp d x\<close> is the distance between
  neighbouring numbers of the format at the magnitude of \<open>x\<close>. The exponent range is
  not bounded here (no overflow, no subnormal numbers).
\<close>

definition precision :: "dtype \<Rightarrow> int" where
  "precision d = (case d of Float64 \<Rightarrow> 53 | Float32 \<Rightarrow> 24 | Float16 \<Rightarrow> 11 | BFloat16 \<Rightarrow> 8)"

definition round_even :: "real \<Rightarrow> int" where
  "round_even y =
     (if frac y = 1 / 2 then (if even \<lfloor>y\<rfloor> then \<lfloor>y\<rfloor> else \<lfloor>y\<rfloor> + 1)
      else \<lfloor>y + 1 / 2\<rfloor>)"

definition ulp :: "dtype \<Rightarrow> real \<Rightarrow> real" where
  "ulp d x = 2 powr of_int (\<lfloor>log 2 \<bar>x\<bar>\<rfloor> - precision d + 1)"

definition rnd :: "dtype \<Rightarrow> real \<Rightarrow> real" where
  "rnd d x = (if x = 0 then 0 else of_int (round_even (x / ulp d x)) * ulp d x)"

text \<open>\<^verbatim>\<open>s = 1 - torch.exp(g)\<close> (line 105 of modeling_liger_gsa.py). The line runs
  before the cast to float32 of line 114, so \<^verbatim>\<open>torch.exp(g)\<close> and the difference are
  tensors of the dtype of \<open>g\<close>, the dtype of the hidden states: each of the two
  operations returns its exact result rounded to that dtype.\<close>

definition slot_decay :: "t4 tensor \<Rightarrow> t4 tensor" where
  "slot_decay g = tmap (\<lambda>x. rnd (dtype g) (1 - rnd (dtype g) (exp x))) g"

text \<open>\<^verbatim>\<open>F.softmax(x, dim=-1)\<close>.\<close>

definition softmax :: "vec \<Rightarrow> vec" where
  "softmax x = map (\<lambda>a. exp a / sum_list (map exp x)) x"

definition softmax_t :: "t4 tensor \<Rightarrow> t4 tensor" where
  "softmax_t t = t\<lparr>vals := map (map (map softmax)) (vals t)\<rparr>"

subsection \<open>The attention mask and in-place multiplication\<close>

text \<open>Python's \<^verbatim>\<open>xs[-n:]\<close>: the last \<open>n\<close> entries, all of them when there are fewer,
  and all of them when \<open>n = 0\<close>.\<close>

definition last_positions :: "nat \<Rightarrow> 'a list \<Rightarrow> 'a list" where
  "last_positions n xs = (if n = 0 then xs else drop (length xs - n) xs)"

text \<open>\<^verbatim>\<open>attention_mask[:, None, -n:, None]\<close>, kept as its (batch, sequence) entries.\<close>

definition mask_slice :: "t2 \<Rightarrow> nat \<Rightarrow> t2" where
  "mask_slice attention_mask n = map (last_positions n) attention_mask"

text \<open>Broadcasting one axis to size \<open>n\<close>: the sizes agree, or the operand has size 1.\<close>

definition expand :: "nat \<Rightarrow> 'a list \<Rightarrow> error + 'a list" where
  "expand n xs =
     (if length xs = n then Inr xs
      else if length xs = 1 then Inr (replicate n (hd xs))
      else Inl RuntimeError)"

fun expand_all :: "nat \<Rightarrow> 'a list list \<Rightarrow> error + 'a list list" where
  "expand_all n [] = Inr []"
| "expand_all n (r # rs) =
     and_then (expand n r) (\<lambda>r'. and_then (expand_all n rs) (\<lambda>rs'. Inr (r' # rs')))"

text \<open>The product of a (batch, heads, sequence, features) tensor with a mask of shape
  (batch, 1, sequence, 1), broadcast to the shape of the tensor.\<close>

definition mul_mask :: "t4 \<Rightarrow> t2 \<Rightarrow> error + t4" where
  "mul_mask t msk =
     and_then (expand (length t) msk) (\<lambda>rows.
     and_then (expand_all (shape2 t) rows) (\<lambda>rows.
     Inr (map2 (\<lambda>hs row. map (\<lambda>toks. map2 (\<lambda>v m. map (\<lambda>x. x * m) v) toks row) hs)
            t rows)))"

text \<open>
  The names \<open>q\<close>, \<open>k\<close>, \<open>v\<close>, \<open>g\<close>, \<open>s\<close> of the slot-attention forward pass refer to
  tensor objects, and \<^verbatim>\<open>sq, sk, sv = q, k, v\<close> binds three more names to the objects of
  \<open>q\<close>, \<open>k\<close>, \<open>v\<close>. \<^verbatim>\<open>mul_\<close> writes into the object it is called on, so the store of
  objects is explicit.
\<close>

datatype obj = Obj_q | Obj_k | Obj_v | Obj_g | Obj_s

type_synonym heap = "obj \<Rightarrow> t4 tensor"

definition mul_inplace :: "obj \<Rightarrow> t2 \<Rightarrow> heap \<Rightarrow> error + heap" where
  "mul_inplace r msk H =
     and_then (mul_mask (vals (H r)) msk) (\<lambda>t. Inr (H(r := (H r)\<lparr>vals := t\<rparr>)))"

subsection \<open>Arithmetic of the blend\<close>

text \<open>The dtype of a sum of two floating-point tensors.\<close>

definition promote_types :: "dtype \<Rightarrow> dtype \<Rightarrow> dtype" where
  "promote_types a b =
     (if a = b then a
      else if a = Float64 \<or> b = Float64 then Float64
      else Float32)"

definition scale_t :: "real \<Rightarrow> t4 tensor \<Rightarrow> t4 tensor" where
  "scale_t c t = tmap (\<lambda>x. c * x) t"

text \<open>The sum of two tensors of one shape. The two paths return tensors of the shape of
  the queries; operands of different shapes are rejected here (broadcasting between
  them is not modelled).\<close>

definition add_t :: "t4 tensor \<Rightarrow> t4 tensor \<Rightarrow> error + t4 tensor" where
  "add_t a b =
     (if map (map (map length)) (vals a) \<noteq> map (map (map length)) (vals b)
      then Inl RuntimeError
      else Inr \<lparr>dtype = promote_types (dtype a) (dtype b),
                vals = map2 (map2 (map2 (map2 (+)))) (vals a) (vals b)\<rparr>)"

section \<open>The recurrent-state cache\<close>

text \<open>
  Modelled from the spec: the cache class (\<^verbatim>\<open>Cache\<close> of \<^verbatim>\<open>fla.models.utils\<close>) is not
  among the sources. The specification describes it as a mapping from layer index to
  recurrent state plus a token offset counter, whose update writes the state under the
  layer's index and advances the counter by the offset it is given. The forward passes
  read it with \<^verbatim>\<open>len\<close> and indexing, so the entries are a list indexed by layer; an
  entry that was never written holds no state.
\<close>

type_synonym rstate = "t4 list"

record layer_state =
  recurrent_state :: "rstate option"

record cache =
  states :: "layer_state list"
  seen_tokens :: nat

definition cache_len :: "cache \<Rightarrow> nat" where
  "cache_len c = length (states c)"

definition cache_getitem :: "cache \<Rightarrow> nat \<Rightarrow> layer_state" where
  "cache_getitem c i = states c ! i"

definition cache_update :: "cache \<Rightarrow> rstate \<Rightarrow> nat \<Rightarrow> nat \<Rightarrow> cache" where
  "cache_update c st layer_idx offset =
     \<lparr>states =
        (if layer_idx < length (states c)
         then (states c)[layer_idx := \<lparr>recurrent_state = Some st\<rparr>]
         else states c @ replicate (layer_idx - length (states c)) \<lparr>recurrent_state = None\<rparr>
                @ [\<lparr>recurrent_state = Some st\<rparr>]),
      seen_tokens = seen_tokens c + offset\<rparr>"

section \<open>Collaborators\<close>

text \<open>
  The projections of a module (its \<^verbatim>\<open>nn.Linear\<close> layers with their weights) and the
  library operations that the forward passes call are parameters of the model: the
  recurrent kernels of \<^verbatim>\<open>fla.ops\<close>, the rotary embedding, the flash-attention entry
  point of transformers and the autocast state of torch. Each may raise.
\<close>

type_synonym position_ids = "int list list"
type_synonym kwargs = "(string \<times> real) list"

record weights =
  q_proj :: "t3 tensor \<Rightarrow> error + t3 tensor"
  k_proj :: "t3 tensor \<Rightarrow> error + t3 tensor"
  v_proj :: "t3 tensor \<Rightarrow> error + t3 tensor"
  o_proj :: "t3 tensor \<Rightarrow> error + t3 tensor"
  weight_dtype :: dtype

type_synonym gsa_kernel =
  "t4 tensor \<Rightarrow> t4 tensor \<Rightarrow> t4 tensor \<Rightarrow> t4 tensor \<Rightarrow> t4 tensor \<Rightarrow> real
     \<Rightarrow> rstate option \<Rightarrow> bool \<Rightarrow> error + (t4 tensor \<times> rstate)"

type_synonym gla_kernel =
  "t4 tensor \<Rightarrow> t4 tensor \<Rightarrow> t4 tensor \<Rightarrow> t4 tensor \<Rightarrow> real
     \<Rightarrow> rstate option \<Rightarrow> bool \<Rightarrow> error + (t4 tensor \<times> rstate)"

record kernels =
  chunk_gsa :: gsa_kernel
  fused_recurrent_gsa :: gsa_kernel
  fused_chunk_gla :: gla_kernel
  fused_recurrent_gla :: gla_kernel
  rotary_emb :: "t4 tensor \<Rightarrow> position_ids option \<Rightarrow> error + (t3 tensor \<times> t3 tensor)"
  apply_rotary_pos_emb ::
    "t4 tensor \<Rightarrow> t4 tensor \<Rightarrow> t3 tensor \<Rightarrow> t3 tensor \<Rightarrow> error + (t4 tensor \<times> t4 tensor)"
  flash_attention_forward ::
    "t4 tensor \<Rightarrow> t4 tensor \<Rightarrow> t4 tensor \<Rightarrow> t2 option \<Rightarrow> nat \<Rightarrow> position_ids option
       \<Rightarrow> real \<Rightarrow> nat \<Rightarrow> bool \<Rightarrow> bool \<Rightarrow> dtype \<Rightarrow> kwargs \<Rightarrow> error + t4 tensor"
  is_autocast_enabled :: bool
  get_autocast_gpu_dtype :: dtype
  is_flash_attn_greater_or_equal_2_10 :: bool

section \<open>The forward passes\<close>

subsection \<open>Steps shared by the two variants\<close>

text \<open>Lines 83-85 (104-106): the entry of this layer, if the cache has one. Comparing
  the length of the cache with a missing \<open>layer_idx\<close> raises.\<close>

definition get_last_state :: "cache option \<Rightarrow> nat option \<Rightarrow> error + layer_state option" where
  "get_last_state past_key_value layer_idx =
     (case past_key_value of
        None \<Rightarrow> Inr None
      | Some c \<Rightarrow>
          (case layer_idx of
             None \<Rightarrow> Inl TypeError
           | Some i \<Rightarrow> if cache_len c > i then Inr (Some (cache_getitem c i)) else Inr None))"

text \<open>Lines 121-126 (161-166): \<^verbatim>\<open>past_key_value.update(recurrent_state=..., layer_idx=...,
  offset=q.shape[1])\<close>. The cache object is mutated; the model returns it.\<close>

definition update_cache ::
  "cache option \<Rightarrow> nat option \<Rightarrow> rstate \<Rightarrow> t4 tensor \<Rightarrow> error + cache option" where
  "update_cache past_key_value layer_idx st q =
     (case past_key_value of
        None \<Rightarrow> Inr None
      | Some c \<Rightarrow>
          (case layer_idx of
             None \<Rightarrow> Inl TypeError
           | Some i \<Rightarrow> Inr (Some (cache_update c st i (shape1 (vals q))))))"

text \<open>Lines 130-183 (168-218): the rotary embedding of the saved queries and keys, the
  cast back from float32, and the causal flash attention on a sliding window of 64.\<close>

definition window_attention ::
  "attention \<Rightarrow> weights \<Rightarrow> kernels \<Rightarrow> bool \<Rightarrow> t4 tensor \<Rightarrow> t4 tensor \<Rightarrow> t4 tensor
     \<Rightarrow> t2 option \<Rightarrow> nat \<Rightarrow> position_ids option \<Rightarrow> (t3 tensor \<times> t3 tensor) option
     \<Rightarrow> kwargs \<Rightarrow> error + t4 tensor" where
  "window_attention m W K use_top_left_mask sq sk sv attention_mask q_len position_ids
      position_embeddings kw =
     and_then (case position_embeddings of
                 None \<Rightarrow> rotary_emb K sv position_ids
               | Some p \<Rightarrow> Inr p) (\<lambda>(cos, sin).
     and_then (apply_rotary_pos_emb K sq sk cos sin) (\<lambda>(sq, sk).
     let input_dtype = dtype sq;
         target_dtype =
           (if is_autocast_enabled K then get_autocast_gpu_dtype K
            else case self_pre_quantization_dtype m of
                   Some d \<Rightarrow> d
                 | None \<Rightarrow> weight_dtype W);
         sq = (if input_dtype = Float32 then to target_dtype sq else sq);
         sk = (if input_dtype = Float32 then to target_dtype sk else sk);
         sv = (if input_dtype = Float32 then to target_dtype sv else sv);
         window_size = 64
     in and_then (flash_attention_forward K (transpose12 sq) (transpose12 sk)
                    (transpose12 sv) attention_mask q_len position_ids 0 window_size
                    use_top_left_mask True Float32 kw) (\<lambda>y.
        Inr (transpose12 y))))"

text \<open>Line 185 (219): \<^verbatim>\<open>o_ = 0.5 * y + 0.5 * o_\<close>.\<close>

definition blend :: "t4 tensor \<Rightarrow> t4 tensor \<Rightarrow> error + t4 tensor" where
  "blend y o_rec = add_t (scale_t 0.5 y) (scale_t 0.5 o_rec)"

text \<open>Line 186 (220): \<^verbatim>\<open>rearrange(o_.bfloat16(), 'b h n d -> b n (h d)')\<close>, the
  argument of the output projection.\<close>

definition o_proj_input :: "t4 tensor \<Rightarrow> t3 tensor" where
  "o_proj_input o_blend = rearrange_merge (bfloat16 o_blend)"

subsection \<open>Gated slot attention\<close>

text \<open>Lines 87-99 of \<^verbatim>\<open>LigerGatedSlotAttention.forward\<close>.\<close>

definition gsa_project ::
  "attention \<Rightarrow> weights \<Rightarrow> t3 tensor
     \<Rightarrow> error + (t4 tensor \<times> t4 tensor \<times> t4 tensor \<times> t4 tensor)" where
  "gsa_project m W hidden_states =
     and_then (q_proj W hidden_states) (\<lambda>q.
     and_then (k_proj W hidden_states) (\<lambda>k.
     and_then (v_proj W hidden_states) (\<lambda>v.
     and_then (AdaptiveAvgPool1d (self_pool_g m) k) (\<lambda>g.
     and_then (rearrange_heads (self_num_heads m) q) (\<lambda>q.
     and_then (rearrange_heads (self_num_key_value_heads m) k) (\<lambda>k.
     and_then (rearrange_heads (self_num_key_value_heads m) v) (\<lambda>v.
     and_then (rearrange_heads (self_num_key_value_heads m) g) (\<lambda>g.
     and_then (repeat_kv k (self_num_key_value_groups m)) (\<lambda>k.
     and_then (repeat_kv v (self_num_key_value_groups m)) (\<lambda>v.
     and_then (repeat_kv g (self_num_key_value_groups m)) (\<lambda>g.
     Inr (q, k, v, g))))))))))))"

text \<open>Lines 106-109: with a mask, \<open>s\<close> and \<open>v\<close> are multiplied in place by the mask
  restricted to their last sequence positions.\<close>

definition gsa_mask :: "t2 option \<Rightarrow> heap \<Rightarrow> error + heap" where
  "gsa_mask attention_mask H =
     (case attention_mask of
        None \<Rightarrow> Inr H
      | Some am \<Rightarrow>
          and_then (mul_inplace Obj_s (mask_slice am (shape2 (vals (H Obj_s)))) H) (\<lambda>H.
          mul_inplace Obj_v (mask_slice am (shape2 (vals (H Obj_v)))) H))"

text \<open>Lines 116-119: the choice between the chunked and the fused recurrent kernel, with
  \<open>scale = 1\<close> and \<open>output_final_state = True\<close>.\<close>

definition gsa_recurrent ::
  "attention \<Rightarrow> kernels \<Rightarrow> t4 tensor \<Rightarrow> t4 tensor \<Rightarrow> t4 tensor \<Rightarrow> t4 tensor \<Rightarrow> t4 tensor
     \<Rightarrow> rstate option \<Rightarrow> error + (t4 tensor \<times> rstate)" where
  "gsa_recurrent m K q k v s g initial_state =
     (if training m \<or> shape2 (vals q) > 1
      then chunk_gsa K q k v s g 1 initial_state True
      else fused_recurrent_gsa K q k v s g 1 initial_state True)"

text \<open>Lines 101-183, from the head tensors on: the recurrent path, the write to the
  cache and the windowed path. The result is the windowed output \<open>y\<close>, the recurrent
  output \<open>o_\<close> and the cache.\<close>

definition gsa_paths ::
  "attention \<Rightarrow> weights \<Rightarrow> kernels \<Rightarrow> layer_state option
     \<Rightarrow> t4 tensor \<Rightarrow> t4 tensor \<Rightarrow> t4 tensor \<Rightarrow> t4 tensor
     \<Rightarrow> t3 tensor \<Rightarrow> t2 option \<Rightarrow> position_ids option \<Rightarrow> cache option
     \<Rightarrow> (t3 tensor \<times> t3 tensor) option \<Rightarrow> kwargs
     \<Rightarrow> error + (t4 tensor \<times> t4 tensor \<times> cache option)" where
  "gsa_paths m W K last_state q k v g hidden_states attention_mask position_ids
      past_key_value position_embeddings kw =
     (let sq = Obj_q; sk = Obj_k; sv = Obj_v;
          g = gate g;
          s = slot_decay g;
          H = (\<lambda>r. case r of Obj_q \<Rightarrow> q | Obj_k \<Rightarrow> k | Obj_v \<Rightarrow> v | Obj_g \<Rightarrow> g | Obj_s \<Rightarrow> s)
      in and_then (gsa_mask attention_mask H) (\<lambda>H.
         let initial_state =
               (case last_state of None \<Rightarrow> None | Some l \<Rightarrow> recurrent_state l);
             q = to Float32 (H Obj_q);
             k = to Float32 (H Obj_k);
             v = to Float32 (H Obj_v);
             s = to Float32 (H Obj_s);
             g = to Float32 (H Obj_g)
         in and_then (gsa_recurrent m K q k v s g initial_state) (\<lambda>(o_rec, st).
            and_then (update_cache past_key_value (self_layer_idx m) st q)
              (\<lambda>past_key_value.
            let q_len = shape1 (vals hidden_states) in
            and_then (window_attention m W K (\<not> is_flash_attn_greater_or_equal_2_10 K)
                        (H sq) (H sk) (H sv) attention_mask q_len position_ids
                        position_embeddings kw) (\<lambda>y.
            Inr (y, o_rec, past_key_value))))))"

text \<open>Lines 185-189: the blend, the cast, the output projection and the result.\<close>

definition gsa_attend ::
  "attention \<Rightarrow> weights \<Rightarrow> kernels \<Rightarrow> layer_state option
     \<Rightarrow> t4 tensor \<Rightarrow> t4 tensor \<Rightarrow> t4 tensor \<Rightarrow> t4 tensor
     \<Rightarrow> t3 tensor \<Rightarrow> t2 option \<Rightarrow> position_ids option \<Rightarrow> cache option
     \<Rightarrow> (t3 tensor \<times> t3 tensor) option \<Rightarrow> kwargs
     \<Rightarrow> error + (t3 tensor \<times> cache option)" where
  "gsa_attend m W K last_state q k v g hidden_states attention_mask position_ids
      past_key_value position_embeddings kw =
     and_then (gsa_paths m W K last_state q k v g hidden_states attention_mask
                 position_ids past_key_value position_embeddings kw)
       (\<lambda>(y, o_rec, past_key_value).
     and_then (blend y o_rec) (\<lambda>o_blend.
     and_then (o_proj W (o_proj_input o_blend)) (\<lambda>out.
     Inr (out, past_key_value))))"

definition gsa_forward ::
  "attention \<Rightarrow> weights \<Rightarrow> kernels \<Rightarrow> t3 tensor \<Rightarrow> t2 option \<Rightarrow> position_ids option
     \<Rightarrow> cache option \<Rightarrow> (t3 tensor \<times> t3 tensor) option \<Rightarrow> kwargs
     \<Rightarrow> error + (t3 tensor \<times> cache option)" where
  "gsa_forward m W K hidden_states attention_mask position_ids past_key_value
      position_embeddings kw =
     and_then (get_last_state past_key_value (self_layer_idx m)) (\<lambda>last_state.
     and_then (gsa_project m W hidden_states) (\<lambda>(q, k, v, g).
     gsa_attend m W K last_state q k v g hidden_states attention_mask position_ids
       past_key_value position_embeddings kw))"

subsection \<open>Qwen2 gated linear attention\<close>

text \<open>Lines 108-140 of \<^verbatim>\<open>LigerQwen2GatedLinearAttention.forward\<close>.\<close>

definition gla_project ::
  "attention \<Rightarrow> weights \<Rightarrow> t3 tensor
     \<Rightarrow> error + (t4 tensor \<times> t4 tensor \<times> t4 tensor \<times> t4 tensor)" where
  "gla_project m W hidden_states =
     and_then (q_proj W hidden_states) (\<lambda>query_states.
     and_then (k_proj W hidden_states) (\<lambda>key_states.
     and_then (v_proj W hidden_states) (\<lambda>value_states.
     and_then (AdaptiveAvgPool1d (self_pool_g m) key_states) (\<lambda>g.
     and_then (view_heads (self_head_dim m) query_states) (\<lambda>query_states.
     and_then (view_heads (self_head_dim m) key_states) (\<lambda>key_states.
     and_then (view_heads (self_head_dim m) value_states) (\<lambda>value_states.
     and_then (view_heads (self_head_dim m) g) (\<lambda>g.
     let q = query_states in
     and_then (repeat_kv key_states (self_num_key_value_groups m)) (\<lambda>k.
     and_then (repeat_kv value_states (self_num_key_value_groups m)) (\<lambda>v.
     and_then (repeat_kv g (self_num_key_value_groups m)) (\<lambda>g.
     Inr (q, k, v, g))))))))))))"

text \<open>Lines 145-154: the tensors handed to the recurrent kernel.\<close>

definition gla_recurrent_inputs ::
  "t4 tensor \<Rightarrow> t4 tensor \<Rightarrow> t4 tensor \<Rightarrow> t4 tensor
     \<Rightarrow> t4 tensor \<times> t4 tensor \<times> t4 tensor \<times> t4 tensor" where
  "gla_recurrent_inputs q k v g =
     (let q = softmax_t q;
          k = softmax_t k;
          g = gate g
      in (to Float32 q, to Float32 k, to Float32 v, to Float32 g))"

text \<open>Lines 156-159.\<close>

definition gla_recurrent ::
  "attention \<Rightarrow> kernels \<Rightarrow> t4 tensor \<Rightarrow> t4 tensor \<Rightarrow> t4 tensor \<Rightarrow> t4 tensor
     \<Rightarrow> rstate option \<Rightarrow> error + (t4 tensor \<times> rstate)" where
  "gla_recurrent m K q k v g initial_state =
     (if training m \<or> shape2 (vals q) > 1
      then fused_chunk_gla K q k v g 1 initial_state True
      else fused_recurrent_gla K q k v g 1 initial_state True)"

text \<open>Lines 201-204: the mask is passed on only if it holds a zero.\<close>

definition gla_window_mask :: "t2 option \<Rightarrow> t2 option" where
  "gla_window_mask attention_mask =
     (case attention_mask of
        None \<Rightarrow> None
      | Some am \<Rightarrow> if 0 \<in> set (concat am) then Some am else None)"

text \<open>Lines 142-218, from the head tensors on. No tensor is written in place here, so
  the names \<open>sq\<close>, \<open>sk\<close>, \<open>sv\<close> are the values of \<open>q\<close>, \<open>k\<close>, \<open>v\<close> at line 142.\<close>

definition gla_paths ::
  "attention \<Rightarrow> weights \<Rightarrow> kernels \<Rightarrow> layer_state option
     \<Rightarrow> t4 tensor \<Rightarrow> t4 tensor \<Rightarrow> t4 tensor \<Rightarrow> t4 tensor
     \<Rightarrow> t3 tensor \<Rightarrow> t2 option \<Rightarrow> position_ids option \<Rightarrow> cache option
     \<Rightarrow> (t3 tensor \<times> t3 tensor) option
     \<Rightarrow> error + (t4 tensor \<times> t4 tensor \<times> cache option)" where
  "gla_paths m W K last_state q k v g hidden_states attention_mask position_ids
      past_key_value position_embeddings =
     (let sq = q; sk = k; sv = v;
          initial_state =
            (case last_state of None \<Rightarrow> None | Some l \<Rightarrow> recurrent_state l)
      in case gla_recurrent_inputs q k v g of (q, k, v, g) \<Rightarrow>
         and_then (gla_recurrent m K q k v g initial_state) (\<lambda>(o_rec, st).
         and_then (update_cache past_key_value (self_layer_idx m) st q)
           (\<lambda>past_key_value.
         let q_len = shape1 (vals hidden_states) in
         and_then (window_attention m W K False sq sk sv (gla_window_mask attention_mask)
                     q_len position_ids position_embeddings []) (\<lambda>y.
         Inr (y, o_rec, past_key_value)))))"

text \<open>Lines 219-223. The method returns \<^verbatim>\<open>(o, None)\<close>; the model also returns the
  cache object that it has written to.\<close>

definition gla_attend ::
  "attention \<Rightarrow> weights \<Rightarrow> kernels \<Rightarrow> layer_state option
     \<Rightarrow> t4 tensor \<Rightarrow> t4 tensor \<Rightarrow> t4 tensor \<Rightarrow> t4 tensor
     \<Rightarrow> t3 tensor \<Rightarrow> t2 option \<Rightarrow> position_ids option \<Rightarrow> cache option
     \<Rightarrow> (t3 tensor \<times> t3 tensor) option
     \<Rightarrow> error + (t3 tensor \<times> cache option)" where
  "gla_attend m W K last_state q k v g hidden_states attention_mask position_ids
      past_key_value position_embeddings =
     and_then (gla_paths m W K last_state q k v g hidden_states attention_mask
                 position_ids past_key_value position_embeddings)
       (\<lambda>(y, o_rec, past_key_value).
     and_then (blend y o_rec) (\<lambda>o_blend.
     and_then (o_proj W (o_proj_input o_blend)) (\<lambda>out.
     Inr (out, past_key_value))))"

definition gla_forward ::
  "attention \<Rightarrow> weights \<Rightarrow> kernels \<Rightarrow> t3 tensor \<Rightarrow> t2 option \<Rightarrow> position_ids option
     \<Rightarrow> cache option \<Rightarrow> (t3 tensor \<times> t3 tensor) option
     \<Rightarrow> error + (t3 tensor \<times> cache option)" where
  "gla_forward m W K hidden_states attention_mask position_ids past_key_value
      position_embeddings =
     and_then (get_last_state past_key_value (self_layer_idx m)) (\<lambda>last_state.
     and_then (gla_project m W hidden_states) (\<lambda>(q, k, v, g).
     gla_attend m W K last_state q k v g hidden_states attention_mask position_ids
       past_key_value position_embeddings))"

section \<open>Reading entries, and a small fixture\<close>

definition entry :: "t4 tensor \<Rightarrow> nat \<Rightarrow> nat \<Rightarrow> nat \<Rightarrow> nat \<Rightarrow> real" where
  "entry t b h i j = vals t ! b ! h ! i ! j"

definition in_shape :: "t4 tensor \<Rightarrow> nat \<Rightarrow> nat \<Rightarrow> nat \<Rightarrow> nat \<Rightarrow> bool" where
  "in_shape t b h i j \<longleftrightarrow>
     b < length (vals t) \<and> h < length (vals t ! b) \<and> i < length (vals t ! b ! h)
     \<and> j < length (vals t ! b ! h ! i)"

text \<open>
  The fixture of the examples: hidden size 4, two heads, one key-value head, so head
  dimension 2, and an input of one sequence of three tokens. Its projections select
  features, and its kernels return one of their arguments: they stand for no real
  kernel, they only let the forward passes run.
\<close>

definition toy_config :: config where
  "toy_config = \<lparr>hidden_size = 4, num_attention_heads = 2, num_key_value_heads = 1,
     head_dim = None, pool_size = 1, pre_quantization_dtype = None\<rparr>"

definition toy_gsa :: attention where
  "toy_gsa =
     \<lparr>self_layer_idx = Some 0, self_hidden_size = 4, self_num_heads = 2, self_head_dim = 2,
      self_num_key_value_heads = 1, self_num_key_value_groups = 2,
      self_q_proj = \<lparr>in_features = 4, out_features = 4, has_bias = False\<rparr>,
      self_k_proj = \<lparr>in_features = 4, out_features = 2, has_bias = False\<rparr>,
      self_v_proj = \<lparr>in_features = 4, out_features = 2, has_bias = False\<rparr>,
      self_o_proj = \<lparr>in_features = 4, out_features = 4, has_bias = False\<rparr>,
      self_pool_g = 1, self_pre_quantization_dtype = None, training = False\<rparr>"

definition toy_gla :: attention where
  "toy_gla =
     \<lparr>self_layer_idx = Some 0, self_hidden_size = 4, self_num_heads = 2, self_head_dim = 2,
      self_num_key_value_heads = 1, self_num_key_value_groups = 2,
      self_q_proj = \<lparr>in_features = 4, out_features = 4, has_bias = True\<rparr>,
      self_k_proj = \<lparr>in_features = 4, out_features = 2, has_bias = True\<rparr>,
      self_v_proj = \<lparr>in_features = 4, out_features = 2, has_bias = True\<rparr>,
      self_o_proj = \<lparr>in_features = 4, out_features = 4, has_bias = False\<rparr>,
      self_pool_g = 2, self_pre_quantization_dtype = None, training = False\<rparr>"

definition toy_weights :: weights where
  "toy_weights =
     \<lparr>q_proj = (\<lambda>x. Inr x),
      k_proj = (\<lambda>x. Inr (x\<lparr>vals := map (map (take 2)) (vals x)\<rparr>)),
      v_proj = (\<lambda>x. Inr (x\<lparr>vals := map (map (drop 2)) (vals x)\<rparr>)),
      o_proj = (\<lambda>x. Inr x),
      weight_dtype = BFloat16\<rparr>"

definition toy_kernels :: kernels where
  "toy_kernels =
     \<lparr>chunk_gsa = (\<lambda>q k v s g scale st fin. Inr (q, [vals k])),
      fused_recurrent_gsa = (\<lambda>q k v s g scale st fin. Inr (q, [vals v])),
      fused_chunk_gla = (\<lambda>q k v g scale st fin. Inr (v, [vals v])),
      fused_recurrent_gla = (\<lambda>q k v g scale st fin. Inr (v, [])),
      rotary_emb =
        (\<lambda>x pos. Inr (\<lparr>dtype = dtype x, vals = []\<rparr>, \<lparr>dtype = dtype x, vals = []\<rparr>)),
      apply_rotary_pos_emb = (\<lambda>q k cos sin. Inr (q, k)),
      flash_attention_forward =
        (\<lambda>q k v am q_len pos dropout window tl causal tgt kw. Inr v),
      is_autocast_enabled = False,
      get_autocast_gpu_dtype = BFloat16,
      is_flash_attn_greater_or_equal_2_10 = True\<rparr>"

definition toy_hidden :: "t3 tensor" where
  "toy_hidden = \<lparr>dtype = BFloat16, vals = [[[1, 2, 3, 4], [5, 6, 7, 8], [9, 10, 11, 12]]]\<rparr>"

definition toy_cache :: cache where
  "toy_cache = \<lparr>states = [], seen_tokens = 0\<rparr>"

text \<open>The head tensors of the fixture (what the slot-attention projection step returns
  on \<open>toy_hidden\<close>), a second value tensor that differs from \<open>toy_v\<close> in the first
  token only, a mask that pads the first position, and a query of a single token.\<close>

definition toy_q :: "t4 tensor" where
  "toy_q = \<lparr>dtype = BFloat16,
            vals = [[[[1, 2], [5, 6], [9, 10]], [[3, 4], [7, 8], [11, 12]]]]\<rparr>"

definition toy_k :: "t4 tensor" where
  "toy_k = \<lparr>dtype = BFloat16,
            vals = [[[[1, 2], [5, 6], [9, 10]], [[1, 2], [5, 6], [9, 10]]]]\<rparr>"

definition toy_v :: "t4 tensor" where
  "toy_v = \<lparr>dtype = BFloat16,
            vals = [[[[3, 4], [7, 8], [11, 12]], [[3, 4], [7, 8], [11, 12]]]]\<rparr>"

definition toy_v_alt :: "t4 tensor" where
  "toy_v_alt = \<lparr>dtype = BFloat16,
            vals = [[[[30, 40], [7, 8], [11, 12]], [[50, 60], [7, 8], [11, 12]]]]\<rparr>"

definition toy_g :: "t4 tensor" where
  "toy_g = \<lparr>dtype = BFloat16,
            vals = [[[[3 / 2], [11 / 2], [19 / 2]], [[3 / 2], [11 / 2], [19 / 2]]]]\<rparr>"

definition toy_mask :: t2 where
  "toy_mask = [[0, 1, 1]]"

text \<open>A pooled key projection of one entry, \<open>-160\<close>, in bfloat16.\<close>

definition toy_pooled :: "t4 tensor" where
  "toy_pooled = \<lparr>dtype = BFloat16, vals = [[[[- 160]]]]\<rparr>"

definition toy_q1 :: "t4 tensor" where
  "toy_q1 = \<lparr>dtype = BFloat16, vals = [[[[1, 2]], [[3, 4]]]]\<rparr>"

section \<open>Construction\<close>

lemma and_then_Inr [simp]: "and_then (Inr x) f = f x"
  by (simp add: and_then_def)

lemma and_then_Inl [simp]: "and_then (Inl e) f = Inl e"
  by (simp add: and_then_def)

lemma replicate_2: "replicate 2 x = [x, x]"
  by (simp add: numeral_2_eq_2)

lemma length_softmax [simp]: "length (softmax x) = length x"
  by (simp add: softmax_def)

lemmas toy_defs =
  toy_config_def toy_gsa_def toy_gla_def toy_weights_def toy_kernels_def toy_hidden_def
  toy_cache_def toy_q_def toy_k_def toy_v_def toy_v_alt_def toy_g_def toy_mask_def
  toy_q1_def toy_pooled_def

lemmas tensor_defs =
  shape1_def shape2_def to_def bfloat16_def tmap_def swap_axes_def transpose12_def
  chunks_def rearrange_heads_def view_heads_def rearrange_merge_def repeat_kv_def
  adaptive_avg_pool_row_def AdaptiveAvgPool1d_def gate_def slot_decay_def softmax_t_def
  last_positions_def mask_slice_def expand_def mul_mask_def mul_inplace_def
  promote_types_def scale_t_def add_t_def upt_conv_Cons replicate_2

lemmas forward_defs =
  cache_len_def cache_getitem_def cache_update_def get_last_state_def update_cache_def
  window_attention_def blend_def o_proj_input_def gsa_project_def gsa_mask_def
  gsa_recurrent_def gsa_paths_def gsa_attend_def gsa_forward_def gla_project_def
  gla_recurrent_inputs_def gla_recurrent_def gla_window_mask_def gla_paths_def
  gla_attend_def gla_forward_def

text \<open>
  C4 (as stated, refuted). A configuration with 4 heads and 3 key-value heads
  (\<open>4 mod 3 \<noteq> 0\<close>) constructs the Qwen2 module, and a configuration with hidden size 65
  and 4 heads (\<open>4 * 16 \<noteq> 65\<close>) constructs the slot-attention module: neither
  constructor fails on them.
\<close>

theorem C4_construction_counterexample:
  "\<not> heads_divisible \<lparr>hidden_size = 64, num_attention_heads = 4, num_key_value_heads = 3,
        head_dim = None, pool_size = 4, pre_quantization_dtype = None\<rparr>
   \<and> \<not> isl (gla_init \<lparr>hidden_size = 64, num_attention_heads = 4, num_key_value_heads = 3,
        head_dim = None, pool_size = 4, pre_quantization_dtype = None\<rparr> (Some 0))
   \<and> \<not> hidden_matches \<lparr>hidden_size = 65, num_attention_heads = 4, num_key_value_heads = 2,
        head_dim = None, pool_size = 4, pre_quantization_dtype = None\<rparr> 16
   \<and> \<not> isl (gsa_init \<lparr>hidden_size = 65, num_attention_heads = 4, num_key_value_heads = 2,
        head_dim = None, pool_size = 4, pre_quantization_dtype = None\<rparr> (Some 0))"
  by (simp add: heads_divisible_def hidden_matches_def gla_init_def gsa_init_def
      floordiv_def Linear_def)

text \<open>
  C4 (amended). The Qwen2 constructor fails, before any layer is built, on every
  configuration whose hidden size is not \<open>num_heads\<close> times the head dimension it
  derives (the floor quotient \<open>hidden_size // num_heads\<close>): with a \<open>ValueError\<close> when
  both head counts are nonzero, with a \<open>ZeroDivisionError\<close> otherwise. That is the only
  relation it checks.
\<close>

theorem C4_gla_init_rejects:
  "\<not> hidden_matches cfg (hidden_size cfg div num_attention_heads cfg) \<Longrightarrow>
     gla_init cfg layer_idx =
       Inl (if num_attention_heads cfg = 0 \<or> num_key_value_heads cfg = 0
            then ZeroDivisionError else ValueError)"
  by (simp add: hidden_matches_def gla_init_def floordiv_def mult.commute)

theorem C4_gla_init_rejects_witness:
  "\<not> hidden_matches \<lparr>hidden_size = 65, num_attention_heads = 4, num_key_value_heads = 2,
        head_dim = None, pool_size = 4, pre_quantization_dtype = None\<rparr> (65 div 4)
   \<and> gla_init \<lparr>hidden_size = 65, num_attention_heads = 4, num_key_value_heads = 2,
        head_dim = None, pool_size = 4, pre_quantization_dtype = None\<rparr> (Some 0)
      = Inl ValueError"
  using C4_gla_init_rejects [of "\<lparr>hidden_size = 65, num_attention_heads = 4,
        num_key_value_heads = 2, head_dim = None, pool_size = 4,
        pre_quantization_dtype = None\<rparr>" "Some 0"]
  by (simp add: hidden_matches_def)

section \<open>The blend\<close>

lemma map_eq_nth: "map f xs = map g ys \<Longrightarrow> i < length xs \<Longrightarrow> f (xs ! i) = g (ys ! i)"
  by (metis length_map nth_map)

lemma map_eq_len: "map f xs = map g ys \<Longrightarrow> length xs = length ys"
  by (metis length_map)

lemma add_t_entry:
  assumes "add_t a b = Inr z" and "in_shape z p h i j"
  shows "in_shape a p h i j \<and> in_shape b p h i j
     \<and> entry z p h i j = entry a p h i j + entry b p h i j"
proof -
  from assms(1) have S: "map (map (map length)) (vals a) = map (map (map length)) (vals b)"
    and z: "vals z = map2 (map2 (map2 (map2 (+)))) (vals a) (vals b)"
    by (auto simp: add_t_def split: if_splits)
  have l0: "length (vals a) = length (vals b)" using S by (rule map_eq_len)
  from assms(2) have p: "p < length (vals a)" using z l0 by (simp add: in_shape_def)
  have S1: "map (map length) (vals a ! p) = map (map length) (vals b ! p)"
    using map_eq_nth [OF S p] .
  have l1: "length (vals a ! p) = length (vals b ! p)" using S1 by (rule map_eq_len)
  have zp: "vals z ! p = map2 (map2 (map2 (+))) (vals a ! p) (vals b ! p)"
    using z p l0 by simp
  from assms(2) have h: "h < length (vals a ! p)" using zp l1 by (simp add: in_shape_def)
  have S2: "map length (vals a ! p ! h) = map length (vals b ! p ! h)"
    using map_eq_nth [OF S1 h] .
  have l2: "length (vals a ! p ! h) = length (vals b ! p ! h)" using S2 by (rule map_eq_len)
  have zh: "vals z ! p ! h = map2 (map2 (+)) (vals a ! p ! h) (vals b ! p ! h)"
    using zp h l1 by simp
  from assms(2) have i: "i < length (vals a ! p ! h)" using zh l2 by (simp add: in_shape_def)
  have l3: "length (vals a ! p ! h ! i) = length (vals b ! p ! h ! i)"
    using map_eq_nth [OF S2 i] .
  have zi: "vals z ! p ! h ! i = map2 (+) (vals a ! p ! h ! i) (vals b ! p ! h ! i)"
    using zh i l2 by simp
  from assms(2) have j: "j < length (vals a ! p ! h ! i)" using zi l3 by (simp add: in_shape_def)
  have "vals z ! p ! h ! i ! j = vals a ! p ! h ! i ! j + vals b ! p ! h ! i ! j"
    using zi j l3 by simp
  then show ?thesis using p h i j l0 l1 l2 l3 by (simp add: in_shape_def entry_def)
qed

lemma scale_t_entry:
  "in_shape (scale_t c t) p h i j \<longleftrightarrow> in_shape t p h i j"
  "in_shape t p h i j \<Longrightarrow> entry (scale_t c t) p h i j = c * entry t p h i j"
  by (auto simp: scale_t_def tmap_def in_shape_def entry_def)

lemma blend_entry:
  assumes "blend y o_rec = Inr z" and "in_shape z p h i j"
  shows "in_shape y p h i j \<and> in_shape o_rec p h i j
     \<and> entry z p h i j = 0.5 * entry y p h i j + 0.5 * entry o_rec p h i j"
  using add_t_entry [OF assms [unfolded blend_def]] by (simp add: scale_t_entry)

lemma gsa_attend_Inr:
  "gsa_attend m W K ls q k v g hs am pos pkv pe kw = Inr (out, c) \<Longrightarrow>
     \<exists>y o_rec z. gsa_paths m W K ls q k v g hs am pos pkv pe kw = Inr (y, o_rec, c)
        \<and> blend y o_rec = Inr z \<and> o_proj W (o_proj_input z) = Inr out"
  by (auto simp: gsa_attend_def and_then_def split: sum.splits prod.splits)

lemma gla_attend_Inr:
  "gla_attend m W K ls q k v g hs am pos pkv pe = Inr (out, c) \<Longrightarrow>
     \<exists>y o_rec z. gla_paths m W K ls q k v g hs am pos pkv pe = Inr (y, o_rec, c)
        \<and> blend y o_rec = Inr z \<and> o_proj W (o_proj_input z) = Inr out"
  by (auto simp: gla_attend_def and_then_def split: sum.splits prod.splits)

lemma gsa_forward_Inr:
  "gsa_forward m W K hs am pos pkv pe kw = Inr (out, c) \<Longrightarrow>
     \<exists>ls q k v g. get_last_state pkv (self_layer_idx m) = Inr ls
        \<and> gsa_project m W hs = Inr (q, k, v, g)
        \<and> gsa_attend m W K ls q k v g hs am pos pkv pe kw = Inr (out, c)"
  by (auto simp: gsa_forward_def and_then_def split: sum.splits prod.splits)

lemma gla_forward_Inr:
  "gla_forward m W K hs am pos pkv pe = Inr (out, c) \<Longrightarrow>
     \<exists>ls q k v g. get_last_state pkv (self_layer_idx m) = Inr ls
        \<and> gla_project m W hs = Inr (q, k, v, g)
        \<and> gla_attend m W K ls q k v g hs am pos pkv pe = Inr (out, c)"
  by (auto simp: gla_forward_def and_then_def split: sum.splits prod.splits)

lemma toy_gsa_project:
  "gsa_project toy_gsa toy_weights toy_hidden = Inr (toy_q, toy_k, toy_v, toy_g)"
  by (simp add: toy_defs tensor_defs forward_defs Let_def)

lemma toy_gla_project:
  "gla_project toy_gla toy_weights toy_hidden = Inr (toy_q, toy_k, toy_v, toy_k)"
  by (simp add: toy_defs tensor_defs forward_defs Let_def)

lemma toy_last_state:
  "get_last_state None (self_layer_idx toy_gsa) = Inr None"
  "get_last_state None (self_layer_idx toy_gla) = Inr None"
  by (simp_all add: get_last_state_def)

lemma toy_gsa_paths:
  "gsa_paths toy_gsa toy_weights toy_kernels None toy_q toy_k toy_v toy_g toy_hidden
     None None None None [] = Inr (toy_v, to Float32 toy_q, None)"
  by (simp add: toy_defs tensor_defs forward_defs Let_def)

lemma toy_gla_paths:
  "gla_paths toy_gla toy_weights toy_kernels None toy_q toy_k toy_v toy_k toy_hidden
     None None None None = Inr (toy_v, to Float32 toy_v, None)"
  by (simp add: toy_defs tensor_defs forward_defs Let_def)

lemma toy_gsa_forward:
  "gsa_forward toy_gsa toy_weights toy_kernels toy_hidden None None None None []
   = Inr (\<lparr>dtype = BFloat16, vals = [[[2, 3, 3, 4], [6, 7, 7, 8], [10, 11, 11, 12]]]\<rparr>,
          None)"
  by (simp add: toy_defs tensor_defs forward_defs Let_def)

lemma toy_gla_forward:
  "gla_forward toy_gla toy_weights toy_kernels toy_hidden None None None None
   = Inr (\<lparr>dtype = BFloat16, vals = [[[3, 4, 3, 4], [7, 8, 7, 8], [11, 12, 11, 12]]]\<rparr>,
          None)"
  by (simp add: toy_defs tensor_defs forward_defs Let_def)

text \<open>
  C1. Whenever a forward pass of either variant returns, its output is the output
  projection of a tensor \<open>z\<close> that is the blend of the windowed output \<open>y\<close> and the
  recurrent output \<open>o_\<close> of that call, and every entry of \<open>z\<close> is 0.5 times the entry of
  \<open>y\<close> plus 0.5 times the entry of \<open>o_\<close>. The two weights are the constant 0.5: they
  depend on no weight of the module.
\<close>

theorem C1_blend_law:
  "(gsa_forward m W K hs am pos pkv pe kw = Inr (out, c) \<longrightarrow>
      (\<exists>ls q k v g y o_rec z.
         get_last_state pkv (self_layer_idx m) = Inr ls
         \<and> gsa_project m W hs = Inr (q, k, v, g)
         \<and> gsa_paths m W K ls q k v g hs am pos pkv pe kw = Inr (y, o_rec, c)
         \<and> blend y o_rec = Inr z \<and> o_proj W (o_proj_input z) = Inr out
         \<and> (\<forall>b h i j. in_shape z b h i j \<longrightarrow>
               in_shape y b h i j \<and> in_shape o_rec b h i j
               \<and> entry z b h i j = 0.5 * entry y b h i j + 0.5 * entry o_rec b h i j)))
   \<and> (gla_forward m' W' K' hs' am' pos' pkv' pe' = Inr (out', c') \<longrightarrow>
      (\<exists>ls q k v g y o_rec z.
         get_last_state pkv' (self_layer_idx m') = Inr ls
         \<and> gla_project m' W' hs' = Inr (q, k, v, g)
         \<and> gla_paths m' W' K' ls q k v g hs' am' pos' pkv' pe' = Inr (y, o_rec, c')
         \<and> blend y o_rec = Inr z \<and> o_proj W' (o_proj_input z) = Inr out'
         \<and> (\<forall>b h i j. in_shape z b h i j \<longrightarrow>
               in_shape y b h i j \<and> in_shape o_rec b h i j
               \<and> entry z b h i j = 0.5 * entry y b h i j + 0.5 * entry o_rec b h i j)))"
proof (rule conjI; rule impI)
  assume "gsa_forward m W K hs am pos pkv pe kw = Inr (out, c)"
  from gsa_forward_Inr [OF this] obtain ls q k v g
    where 1: "get_last_state pkv (self_layer_idx m) = Inr ls"
      and 2: "gsa_project m W hs = Inr (q, k, v, g)"
      and 3: "gsa_attend m W K ls q k v g hs am pos pkv pe kw = Inr (out, c)"
    by blast
  from gsa_attend_Inr [OF 3] obtain y o_rec z
    where 4: "gsa_paths m W K ls q k v g hs am pos pkv pe kw = Inr (y, o_rec, c)"
      and 5: "blend y o_rec = Inr z" and 6: "o_proj W (o_proj_input z) = Inr out"
    by blast
  have "\<forall>b h i j. in_shape z b h i j \<longrightarrow>
               in_shape y b h i j \<and> in_shape o_rec b h i j
               \<and> entry z b h i j = 0.5 * entry y b h i j + 0.5 * entry o_rec b h i j"
    using blend_entry [OF 5] by blast
  with 1 2 4 5 6
  show "\<exists>ls q k v g y o_rec z.
         get_last_state pkv (self_layer_idx m) = Inr ls
         \<and> gsa_project m W hs = Inr (q, k, v, g)
         \<and> gsa_paths m W K ls q k v g hs am pos pkv pe kw = Inr (y, o_rec, c)
         \<and> blend y o_rec = Inr z \<and> o_proj W (o_proj_input z) = Inr out
         \<and> (\<forall>b h i j. in_shape z b h i j \<longrightarrow>
               in_shape y b h i j \<and> in_shape o_rec b h i j
               \<and> entry z b h i j = 0.5 * entry y b h i j + 0.5 * entry o_rec b h i j)"
    by blast
next
  assume "gla_forward m' W' K' hs' am' pos' pkv' pe' = Inr (out', c')"
  from gla_forward_Inr [OF this] obtain ls q k v g
    where 1: "get_last_state pkv' (self_layer_idx m') = Inr ls"
      and 2: "gla_project m' W' hs' = Inr (q, k, v, g)"
      and 3: "gla_attend m' W' K' ls q k v g hs' am' pos' pkv' pe' = Inr (out', c')"
    by blast
  from gla_attend_Inr [OF 3] obtain y o_rec z
    where 4: "gla_paths m' W' K' ls q k v g hs' am' pos' pkv' pe' = Inr (y, o_rec, c')"
      and 5: "blend y o_rec = Inr z" and 6: "o_proj W' (o_proj_input z) = Inr out'"
    by blast
  have "\<forall>b h i j. in_shape z b h i j \<longrightarrow>
               in_shape y b h i j \<and> in_shape o_rec b h i j
               \<and> entry z b h i j = 0.5 * entry y b h i j + 0.5 * entry o_rec b h i j"
    using blend_entry [OF 5] by blast
  with 1 2 4 5 6
  show "\<exists>ls q k v g y o_rec z.
         get_last_state pkv' (self_layer_idx m') = Inr ls
         \<and> gla_project m' W' hs' = Inr (q, k, v, g)
         \<and> gla_paths m' W' K' ls q k v g hs' am' pos' pkv' pe' = Inr (y, o_rec, c')
         \<and> blend y o_rec = Inr z \<and> o_proj W' (o_proj_input z) = Inr out'
         \<and> (\<forall>b h i j. in_shape z b h i j \<longrightarrow>
               in_shape y b h i j \<and> in_shape o_rec b h i j
               \<and> entry z b h i j = 0.5 * entry y b h i j + 0.5 * entry o_rec b h i j)"
    by blast
qed

theorem C1_blend_law_witness:
  "gsa_forward toy_gsa toy_weights toy_kernels toy_hidden None None None None []
   = Inr (\<lparr>dtype = BFloat16, vals = [[[2, 3, 3, 4], [6, 7, 7, 8], [10, 11, 11, 12]]]\<rparr>,
          None)
   \<and> gla_forward toy_gla toy_weights toy_kernels toy_hidden None None None None
   = Inr (\<lparr>dtype = BFloat16, vals = [[[3, 4, 3, 4], [7, 8, 7, 8], [11, 12, 11, 12]]]\<rparr>,
          None)
   \<and> (\<exists>z. blend toy_v (to Float32 toy_q) = Inr z \<and> in_shape z 0 1 2 0
        \<and> entry z 0 1 2 0
            = 0.5 * entry toy_v 0 1 2 0 + 0.5 * entry (to Float32 toy_q) 0 1 2 0)
   \<and> (\<exists>z. blend toy_v (to Float32 toy_v) = Inr z \<and> in_shape z 0 1 2 0
        \<and> entry z 0 1 2 0
            = 0.5 * entry toy_v 0 1 2 0 + 0.5 * entry (to Float32 toy_v) 0 1 2 0)"
proof -
  note law = C1_blend_law [where m = toy_gsa and W = toy_weights and K = toy_kernels
      and hs = toy_hidden and am = None and pos = None and pkv = None and pe = None
      and kw = "[]" and c = None
      and out = "\<lparr>dtype = BFloat16, vals = [[[2, 3, 3, 4], [6, 7, 7, 8], [10, 11, 11, 12]]]\<rparr>"
      and m' = toy_gla and W' = toy_weights and K' = toy_kernels
      and hs' = toy_hidden and am' = None and pos' = None and pkv' = None and pe' = None
      and c' = None
      and out' = "\<lparr>dtype = BFloat16, vals = [[[3, 4, 3, 4], [7, 8, 7, 8], [11, 12, 11, 12]]]\<rparr>"]
  from law toy_gsa_forward obtain z
    where z: "blend toy_v (to Float32 toy_q) = Inr z"
      and e: "\<forall>b h i j. in_shape z b h i j \<longrightarrow>
               entry z b h i j
                 = 0.5 * entry toy_v b h i j + 0.5 * entry (to Float32 toy_q) b h i j"
    by (auto simp: toy_gsa_project toy_last_state toy_gsa_paths)
  from law toy_gla_forward obtain z'
    where z': "blend toy_v (to Float32 toy_v) = Inr z'"
      and e': "\<forall>b h i j. in_shape z' b h i j \<longrightarrow>
               entry z' b h i j
                 = 0.5 * entry toy_v b h i j + 0.5 * entry (to Float32 toy_v) b h i j"
    by (auto simp: toy_gla_project toy_last_state toy_gla_paths)
  from z have "in_shape z 0 1 2 0"
    by (auto simp: toy_defs tensor_defs blend_def in_shape_def)
  moreover from z' have "in_shape z' 0 1 2 0"
    by (auto simp: toy_defs tensor_defs blend_def in_shape_def)
  ultimately show ?thesis
    using z e z' e' toy_gsa_forward toy_gla_forward by blast
qed

section \<open>Choice of the recurrent kernel\<close>



section \<open>The write to the cache\<close>

text \<open>
  C3 (the code departs from the claim). The fixture has two heads and an input of three
  tokens. Both forward passes store the new recurrent state under layer 0 of an empty
  cache, and both advance its token counter by 2, the number of heads: the offset they
  pass is \<^verbatim>\<open>q.shape[1]\<close> of a tensor laid out as (batch, heads, sequence, features),
  whose sequence axis the same methods read as \<^verbatim>\<open>q.shape[-2]\<close> three lines earlier.
\<close>

theorem C3_offset_is_head_count:
  "shape1 (vals toy_hidden) = 3
   \<and> self_num_heads toy_gsa = 2
   \<and> map_sum id (\<lambda>m. m\<lparr>training := False\<rparr>) (gsa_init toy_config (Some 0)) = Inr toy_gsa
   \<and> map_sum id (\<lambda>m. m\<lparr>training := False\<rparr>) (gla_init toy_config (Some 0)) = Inr toy_gla
   \<and> map_sum id snd
        (gsa_forward toy_gsa toy_weights toy_kernels toy_hidden None None (Some toy_cache)
           None [])
      = Inr (Some \<lparr>states = [\<lparr>recurrent_state = Some [vals toy_k]\<rparr>], seen_tokens = 2\<rparr>)
   \<and> map_sum id snd
        (gla_forward toy_gla toy_weights toy_kernels toy_hidden None None (Some toy_cache)
           None)
      = Inr (Some \<lparr>states = [\<lparr>recurrent_state = Some [vals toy_v]\<rparr>], seen_tokens = 2\<rparr>)"
  by (simp add: toy_defs tensor_defs forward_defs Let_def gsa_init_def gla_init_def
      floordiv_def Linear_def)

section \<open>Gates\<close>

lemma logsigmoid_le_0: "logsigmoid x \<le> 0"
  by (simp add: logsigmoid_def add_pos_pos ln_ge_zero)

lemma elements_tmap: "elements (vals (tmap f t)) = map f (elements (vals t))"
  by (simp add: elements_def vectors_def tmap_def map_concat)

text \<open>
  C5. Every entry of the gate tensor, the log-sigmoid of the pooled key projection
  divided by 16, is at most 0, whatever tensor the pooling produced. Both variants
  compute it with \<open>gate\<close>.
\<close>

theorem C5_gate_nonpositive:
  "x \<in> set (elements (vals (gate g))) \<Longrightarrow> x \<le> 0"
  by (auto simp: gate_def elements_tmap gate_logit_normalizer_def
      intro!: divide_nonpos_pos logsigmoid_le_0)

theorem C5_gate_nonpositive_witness:
  "logsigmoid (3 / 2) / 16 \<in> set (elements (vals (gate toy_g)))
   \<and> logsigmoid (3 / 2) / 16 \<le> 0"
proof -
  have "logsigmoid (3 / 2) / 16 \<in> set (elements (vals (gate toy_g)))"
    by (simp add: gate_def tmap_def gate_logit_normalizer_def toy_g_def elements_def
        vectors_def)
  then show ?thesis
    using C5_gate_nonpositive [of "logsigmoid (3 / 2) / 16" toy_g] by blast
qed

subsection \<open>Rounding\<close>

lemma precision_pos: "1 \<le> precision d"
  by (cases d) (simp_all add: precision_def)

lemma ulp_pos: "0 < ulp d x"
  by (simp add: ulp_def)

lemma round_even_nonneg: "0 \<le> y \<Longrightarrow> 0 \<le> round_even y"
  by (auto simp: round_even_def)

lemma round_even_le: "y \<le> of_int N \<Longrightarrow> round_even y \<le> N"
proof -
  assume le: "y \<le> of_int N"
  show ?thesis
  proof (cases "frac y = 1 / 2")
    case True
    then have "y = of_int \<lfloor>y\<rfloor> + 1 / 2" by (simp add: frac_def)
    then have "of_int \<lfloor>y\<rfloor> < (of_int N :: real)" using le by linarith
    then have "\<lfloor>y\<rfloor> < N" by simp
    then show ?thesis using True by (simp add: round_even_def)
  next
    case False
    have "y + 1 / 2 < of_int N + 1" using le by simp
    then have "\<lfloor>y + 1 / 2\<rfloor> \<le> N" by (simp add: floor_le_iff)
    then show ?thesis using False by (simp add: round_even_def)
  qed
qed

lemma pow2_int: "0 \<le> m \<Longrightarrow> 2 powr of_int m = (of_int (2 ^ nat m) :: real)"
  by (simp add: powr_real_of_int)

lemma rnd_nonneg: "0 \<le> x \<Longrightarrow> 0 \<le> rnd d x"
  using ulp_pos [of d x] by (simp add: rnd_def round_even_nonneg)

text \<open>Rounding does not step over a power of two: powers of two are numbers of every
  format.\<close>

lemma rnd_le_pow2:
  assumes "0 < x" and "x \<le> 2 powr of_int k"
  shows "rnd d x \<le> 2 powr of_int k"
proof -
  define e where "e = \<lfloor>log 2 \<bar>x\<bar>\<rfloor>"
  have "log 2 x \<le> of_int k" using assms by (simp add: log_le_iff)
  then have ek: "e \<le> k" using assms(1) by (simp add: e_def floor_le_iff)
  define m where "m = k - e + precision d - 1"
  have m0: "0 \<le> m" using ek precision_pos [of d] by (simp add: m_def)
  have u: "ulp d x = 2 powr of_int (e - precision d + 1)" by (simp add: ulp_def e_def)
  have "2 powr of_int k = 2 powr of_int m * ulp d x"
    unfolding u by (simp add: m_def flip: powr_add)
  then have k: "2 powr of_int k = of_int (2 ^ nat m) * ulp d x"
    using pow2_int [OF m0] by simp
  have "x / ulp d x \<le> of_int (2 ^ nat m)"
    using assms(2) ulp_pos [of d x] unfolding k by (simp add: pos_divide_le_eq)
  then have "round_even (x / ulp d x) \<le> 2 ^ nat m" by (rule round_even_le)
  then have "(of_int (round_even (x / ulp d x)) :: real) \<le> of_int (2 ^ nat m)"
    by (simp only: of_int_le_iff)
  then have "of_int (round_even (x / ulp d x)) * ulp d x \<le> of_int (2 ^ nat m) * ulp d x"
    using ulp_pos [of d x] by (simp add: mult_right_mono)
  then show ?thesis using assms(1) k by (simp add: rnd_def)
qed

lemma rnd_unit: "0 \<le> x \<Longrightarrow> x \<le> 1 \<Longrightarrow> 0 \<le> rnd d x \<and> rnd d x \<le> 1"
proof (cases "x = 0")
  case True
  then show ?thesis by (simp add: rnd_def)
next
  case False
  assume "0 \<le> x" "x \<le> 1"
  then have "0 < x" "x \<le> 2 powr of_int 0" using False by simp_all
  from rnd_le_pow2 [OF this] show ?thesis using \<open>0 \<le> x\<close> by (simp add: rnd_nonneg)
qed

lemma decay_closed_range:
  "0 \<le> rnd d (1 - rnd d (exp (logsigmoid a / 16)))
   \<and> rnd d (1 - rnd d (exp (logsigmoid a / 16))) \<le> 1"
proof -
  have "logsigmoid a / 16 \<le> 0" by (simp add: divide_nonpos_pos logsigmoid_le_0)
  then have "0 \<le> exp (logsigmoid a / 16)" "exp (logsigmoid a / 16) \<le> 1" by simp_all
  from rnd_unit [OF this]
  have "0 \<le> 1 - rnd d (exp (logsigmoid a / 16))" "1 - rnd d (exp (logsigmoid a / 16)) \<le> 1"
    by simp_all
  from rnd_unit [OF this] show ?thesis .
qed

text \<open>Without rounding the decay stays strictly below 1.\<close>

lemma decay_exact_range:
  "0 \<le> 1 - exp (logsigmoid a / 16) \<and> 1 - exp (logsigmoid a / 16) < 1"
proof -
  have "logsigmoid a / 16 \<le> 0" by (simp add: divide_nonpos_pos logsigmoid_le_0)
  then show ?thesis by simp
qed

lemma floor_log2:
  assumes "2 powr of_int n \<le> x" and "x < 2 powr of_int (n + 1)"
  shows "\<lfloor>log 2 x\<rfloor> = n"
proof -
  have x: "0 < x" using assms(1) by (smt (verit) powr_gt_zero)
  have "of_int n \<le> log 2 x" using assms(1) x by (simp add: le_log_iff)
  moreover have "log 2 x < of_int n + 1" using assms(2) x by (simp add: log_less_iff)
  ultimately show ?thesis by (simp add: floor_eq_iff)
qed

text \<open>In bfloat16 the numbers between 1/2 and 1 are 1/256 apart, so everything from
  \<open>1 - 1/1024\<close> on rounds to 1.\<close>

lemma rnd_bf16_near_one:
  assumes "1 - 1 / 1024 \<le> y" and "y \<le> 1"
  shows "rnd BFloat16 y = 1"
proof (cases "y = 1")
  case True
  have u1: "ulp BFloat16 1 = 1 / 128"
    by (simp add: ulp_def precision_def powr_minus)
  show ?thesis using True by (simp add: rnd_def u1 round_even_def)
next
  case False
  then have y: "y < 1" using assms(2) by simp
  have "\<lfloor>log 2 y\<rfloor> = - 1"
    using assms(1) y by (intro floor_log2) (simp_all add: powr_real_of_int)
  moreover have "\<bar>y\<bar> = y" using assms(1) by simp
  ultimately have u: "ulp BFloat16 y = 1 / 256"
    by (simp add: ulp_def precision_def powr_minus)
  have lo: "255 + 3 / 4 \<le> y * 256" and hi: "y * 256 < 256" using assms(1) y by simp_all
  have fl: "\<lfloor>y * 256\<rfloor> = 255" using lo hi by (simp add: floor_eq_iff)
  have "frac (y * 256) \<noteq> 1 / 2" using lo by (simp add: frac_def fl)
  moreover have "\<lfloor>y * 256 + 1 / 2\<rfloor> = 256" using lo hi by (simp add: floor_eq_iff)
  ultimately have "round_even (y * 256) = 256" by (simp add: round_even_def)
  then show ?thesis using assms(1) by (simp add: rnd_def u)
qed

lemma exp_10_ge: "1024 \<le> exp (10 :: real)"
proof -
  have "(2::real) \<le> exp 1" using exp_ge_add_one_self [of "1::real"] by simp
  then have "(2::real) ^ 10 \<le> exp 1 ^ 10" by (rule power_mono) simp
  moreover have "exp (1::real) ^ 10 = exp 10" using exp_of_nat_mult [of 10 "1::real"] by simp
  ultimately show ?thesis by simp
qed

lemma decay_reaches_one:
  "rnd BFloat16 (1 - rnd BFloat16 (exp (logsigmoid (- 160) / 16))) = 1"
proof -
  have "ln (exp (160::real)) \<le> ln (1 + exp 160)"
    by (subst ln_le_cancel_iff) (simp_all add: add_pos_pos)
  then have "logsigmoid (- 160) \<le> - 160" by (simp add: logsigmoid_def)
  then have "logsigmoid (- 160) / 16 \<le> - 10" by simp
  then have "exp (logsigmoid (- 160) / 16) \<le> exp (- 10)" by simp
  also have "\<dots> \<le> 1 / 1024" using exp_10_ge by (simp add: exp_minus field_simps)
  finally have a: "exp (logsigmoid (- 160) / 16) \<le> 2 powr of_int (- 10)"
    by (simp add: powr_minus)
  have "rnd BFloat16 (exp (logsigmoid (- 160) / 16)) \<le> 2 powr of_int (- 10)"
    by (rule rnd_le_pow2 [OF _ a]) simp
  then have "rnd BFloat16 (exp (logsigmoid (- 160) / 16)) \<le> 1 / 1024"
    by (simp add: powr_minus)
  moreover have "0 \<le> rnd BFloat16 (exp (logsigmoid (- 160) / 16))"
    by (rule rnd_nonneg) simp
  ultimately show ?thesis by (intro rnd_bf16_near_one) simp_all
qed

text \<open>
  C6 (as stated, refuted). For a pooled key of \<open>-160\<close> in bfloat16 the gate is about
  \<open>-10\<close>, \<open>exp g\<close> is below \<open>1/1024\<close>, and the difference \<open>1 - exp g\<close> rounds to
  exactly 1: the decay tensor has the entry 1, which is not in \<open>[0, 1)\<close>.
\<close>

theorem C6_slot_decay_reaches_one:
  "elements (vals (slot_decay (gate toy_pooled))) = [1]
   \<and> \<not> (0 \<le> (1::real) \<and> (1::real) < 1)"
  by (simp add: slot_decay_def gate_def tmap_def toy_pooled_def elements_def vectors_def
      gate_logit_normalizer_def decay_reaches_one)

text \<open>
  C6 (amended). Every entry of the decay tensor \<open>s = 1 - exp g\<close> of the slot-attention
  variant, computed in the dtype of the gate tensor, lies in the closed interval
  \<open>[0, 1]\<close>, in each of the four formats.
\<close>

theorem C6_slot_decay_closed_range:
  "x \<in> set (elements (vals (slot_decay (gate g)))) \<Longrightarrow> 0 \<le> x \<and> x \<le> 1"
proof -
  assume "x \<in> set (elements (vals (slot_decay (gate g))))"
  then obtain a d where "x = rnd d (1 - rnd d (exp (logsigmoid a / 16)))"
    by (auto simp: slot_decay_def gate_def elements_tmap gate_logit_normalizer_def)
  then show ?thesis using decay_closed_range [of d a] by simp
qed

theorem C6_slot_decay_closed_range_witness:
  "rnd BFloat16 (1 - rnd BFloat16 (exp (logsigmoid (3 / 2) / 16)))
     \<in> set (elements (vals (slot_decay (gate toy_g))))
   \<and> 0 \<le> rnd BFloat16 (1 - rnd BFloat16 (exp (logsigmoid (3 / 2) / 16)))
   \<and> rnd BFloat16 (1 - rnd BFloat16 (exp (logsigmoid (3 / 2) / 16))) \<le> 1"
proof -
  have "rnd BFloat16 (1 - rnd BFloat16 (exp (logsigmoid (3 / 2) / 16)))
     \<in> set (elements (vals (slot_decay (gate toy_g))))"
    by (simp add: slot_decay_def gate_def tmap_def gate_logit_normalizer_def toy_g_def
        elements_def vectors_def)
  then show ?thesis
    using C6_slot_decay_closed_range
      [of "rnd BFloat16 (1 - rnd BFloat16 (exp (logsigmoid (3 / 2) / 16)))" toy_g]
    by blast
qed

section \<open>Left padding\<close>









section \<open>Normalised queries and keys of the Qwen2 variant\<close>














section \<open>The dtype of the projected tensor\<close>

lemma o_proj_input_dtype: "dtype (o_proj_input z) = BFloat16"
  by (simp add: o_proj_input_def rearrange_merge_def bfloat16_def to_def)

text \<open>
  C10. Whenever a forward pass of either variant returns, its output is the output
  projection applied to a tensor of dtype bfloat16, the cast blend of that call,
  whatever the dtypes of the hidden states, of the two paths and of the blend are.
\<close>

theorem C10_o_proj_input_is_bfloat16:
  "(gsa_forward m W K hs am pos pkv pe kw = Inr (out, c) \<longrightarrow>
      (\<exists>ls q k v g y o_rec z.
         get_last_state pkv (self_layer_idx m) = Inr ls
         \<and> gsa_project m W hs = Inr (q, k, v, g)
         \<and> gsa_paths m W K ls q k v g hs am pos pkv pe kw = Inr (y, o_rec, c)
         \<and> blend y o_rec = Inr z \<and> o_proj W (o_proj_input z) = Inr out
         \<and> dtype (o_proj_input z) = BFloat16))
   \<and> (gla_forward m' W' K' hs' am' pos' pkv' pe' = Inr (out', c') \<longrightarrow>
      (\<exists>ls q k v g y o_rec z.
         get_last_state pkv' (self_layer_idx m') = Inr ls
         \<and> gla_project m' W' hs' = Inr (q, k, v, g)
         \<and> gla_paths m' W' K' ls q k v g hs' am' pos' pkv' pe' = Inr (y, o_rec, c')
         \<and> blend y o_rec = Inr z \<and> o_proj W' (o_proj_input z) = Inr out'
         \<and> dtype (o_proj_input z) = BFloat16))"
proof (rule conjI; rule impI)
  assume "gsa_forward m W K hs am pos pkv pe kw = Inr (out, c)"
  from gsa_forward_Inr [OF this] obtain ls q k v g
    where 1: "get_last_state pkv (self_layer_idx m) = Inr ls"
      and 2: "gsa_project m W hs = Inr (q, k, v, g)"
      and 3: "gsa_attend m W K ls q k v g hs am pos pkv pe kw = Inr (out, c)"
    by blast
  from gsa_attend_Inr [OF 3] obtain y o_rec z
    where "gsa_paths m W K ls q k v g hs am pos pkv pe kw = Inr (y, o_rec, c)"
      and "blend y o_rec = Inr z" and "o_proj W (o_proj_input z) = Inr out"
    by blast
  with 1 2 o_proj_input_dtype [of z]
  show "\<exists>ls q k v g y o_rec z.
         get_last_state pkv (self_layer_idx m) = Inr ls
         \<and> gsa_project m W hs = Inr (q, k, v, g)
         \<and> gsa_paths m W K ls q k v g hs am pos pkv pe kw = Inr (y, o_rec, c)
         \<and> blend y o_rec = Inr z \<and> o_proj W (o_proj_input z) = Inr out
         \<and> dtype (o_proj_input z) = BFloat16"
    by blast
next
  assume "gla_forward m' W' K' hs' am' pos' pkv' pe' = Inr (out', c')"
  from gla_forward_Inr [OF this] obtain ls q k v g
    where 1: "get_last_state pkv' (self_layer_idx m') = Inr ls"
      and 2: "gla_project m' W' hs' = Inr (q, k, v, g)"
      and 3: "gla_attend m' W' K' ls q k v g hs' am' pos' pkv' pe' = Inr (out', c')"
    by blast
  from gla_attend_Inr [OF 3] obtain y o_rec z
    where "gla_paths m' W' K' ls q k v g hs' am' pos' pkv' pe' = Inr (y, o_rec, c')"
      and "blend y o_rec = Inr z" and "o_proj W' (o_proj_input z) = Inr out'"
    by blast
  with 1 2 o_proj_input_dtype [of z]
  show "\<exists>ls q k v g y o_rec z.
         get_last_state pkv' (self_layer_idx m') = Inr ls
         \<and> gla_project m' W' hs' = Inr (q, k, v, g)
         \<and> gla_paths m' W' K' ls q k v g hs' am' pos' pkv' pe' = Inr (y, o_rec, c')
         \<and> blend y o_rec = Inr z \<and> o_proj W' (o_proj_input z) = Inr out'
         \<and> dtype (o_proj_input z) = BFloat16"
    by blast
qed

theorem C10_o_proj_input_is_bfloat16_witness:
  "dtype (to Float32 toy_hidden) = Float32
   \<and> gsa_forward toy_gsa toy_weights toy_kernels (to Float32 toy_hidden) None None None
       None []
   = Inr (\<lparr>dtype = BFloat16, vals = [[[2, 3, 3, 4], [6, 7, 7, 8], [10, 11, 11, 12]]]\<rparr>,
          None)
   \<and> gla_forward toy_gla toy_weights toy_kernels (to Float32 toy_hidden) None None None
       None
   = Inr (\<lparr>dtype = BFloat16, vals = [[[3, 4, 3, 4], [7, 8, 7, 8], [11, 12, 11, 12]]]\<rparr>,
          None)
   \<and> (\<exists>z. blend (to BFloat16 toy_v) (to Float32 toy_q) = Inr z \<and> dtype z = Float32
        \<and> dtype (o_proj_input z) = BFloat16)
   \<and> (\<exists>z. blend (to BFloat16 toy_v) (to Float32 toy_v) = Inr z \<and> dtype z = Float32
        \<and> dtype (o_proj_input z) = BFloat16)"
proof -
  have a: "gsa_forward toy_gsa toy_weights toy_kernels (to Float32 toy_hidden) None None
       None None []
   = Inr (\<lparr>dtype = BFloat16, vals = [[[2, 3, 3, 4], [6, 7, 7, 8], [10, 11, 11, 12]]]\<rparr>,
          None)"
    by (simp add: toy_defs tensor_defs forward_defs Let_def)
  have b: "gla_forward toy_gla toy_weights toy_kernels (to Float32 toy_hidden) None None
       None None
   = Inr (\<lparr>dtype = BFloat16, vals = [[[3, 4, 3, 4], [7, 8, 7, 8], [11, 12, 11, 12]]]\<rparr>,
          None)"
    by (simp add: toy_defs tensor_defs forward_defs Let_def)
  have pra: "gsa_project toy_gsa toy_weights (to Float32 toy_hidden)
       = Inr (to Float32 toy_q, to Float32 toy_k, to Float32 toy_v, to Float32 toy_g)"
    by (simp add: toy_defs tensor_defs forward_defs Let_def)
  have prb: "gla_project toy_gla toy_weights (to Float32 toy_hidden)
       = Inr (to Float32 toy_q, to Float32 toy_k, to Float32 toy_v, to Float32 toy_k)"
    by (simp add: toy_defs tensor_defs forward_defs Let_def)
  have pa: "gsa_paths toy_gsa toy_weights toy_kernels None (to Float32 toy_q)
       (to Float32 toy_k) (to Float32 toy_v) (to Float32 toy_g) (to Float32 toy_hidden)
       None None None None [] = Inr (to BFloat16 toy_v, to Float32 toy_q, None)"
    by (simp add: toy_defs tensor_defs forward_defs Let_def)
  have pb: "gla_paths toy_gla toy_weights toy_kernels None (to Float32 toy_q)
       (to Float32 toy_k) (to Float32 toy_v) (to Float32 toy_k) (to Float32 toy_hidden)
       None None None None = Inr (to BFloat16 toy_v, to Float32 toy_v, None)"
    by (simp add: toy_defs tensor_defs forward_defs Let_def)
  note law = C10_o_proj_input_is_bfloat16 [where m = toy_gsa and W = toy_weights
      and K = toy_kernels and hs = "to Float32 toy_hidden" and am = None and pos = None
      and pkv = None and pe = None and kw = "[]" and c = None
      and out = "\<lparr>dtype = BFloat16, vals = [[[2, 3, 3, 4], [6, 7, 7, 8], [10, 11, 11, 12]]]\<rparr>"
      and m' = toy_gla and W' = toy_weights and K' = toy_kernels
      and hs' = "to Float32 toy_hidden" and am' = None and pos' = None and pkv' = None
      and pe' = None and c' = None
      and out' = "\<lparr>dtype = BFloat16, vals = [[[3, 4, 3, 4], [7, 8, 7, 8], [11, 12, 11, 12]]]\<rparr>"]
  from law a obtain z
    where z: "blend (to BFloat16 toy_v) (to Float32 toy_q) = Inr z"
      "dtype (o_proj_input z) = BFloat16"
    by (auto simp: pra toy_last_state pa)
  from law b obtain z'
    where z': "blend (to BFloat16 toy_v) (to Float32 toy_v) = Inr z'"
      "dtype (o_proj_input z') = BFloat16"
    by (auto simp: prb toy_last_state pb)
  from z(1) have "dtype z = Float32"
    by (auto simp: toy_defs tensor_defs blend_def)
  moreover from z'(1) have "dtype z' = Float32"
    by (auto simp: toy_defs tensor_defs blend_def)
  moreover have "dtype (to Float32 toy_hidden) = Float32" by (simp add: to_def)
  ultimately show ?thesis using a b z z' by blast
qed

end
